theory Spec2Isabelle
  imports Main "HOL-Library.Word"
begin

section \<open>The target sandbox\<close>

text \<open>
  The target container is a file system, the root account's password, the services that
  run, the rows of the \<open>secrets\<close> database and the lines printed so far. Whether the
  web server's process may remove an entry of the directory \<open>/\<close> is decided by the
  image, not by \<open>entrypoint.sh\<close> or \<open>admin.php\<close>, so it is a field of the state that
  neither of them writes.
\<close>

type_synonym path = string

record file_node =
  content :: string
  mode :: nat

datatype service = Ssh | Apache2 | Mariadb

record sandbox =
  files :: "path \<rightharpoonup> file_node"
  root_password :: "string option"
  services :: "service set"
  secrets_config :: "(string \<times> string) list"
  secrets_users :: "(string \<times> string) list"
  stdout :: "string list"
  unlink_permitted :: bool

definition newline :: char where
  "newline = CHR 0x0A"

definition flag_path :: path where
  "flag_path = ''/flag.txt''"

definition secret_path :: path where
  "secret_path = ''/var/www/html/admin_code.secret''"

definition file_exists :: "sandbox \<Rightarrow> path \<Rightarrow> bool" where
  "file_exists s p = (files s p \<noteq> None)"

text \<open>
  PHP's \<open>file_get_contents\<close> returns \<open>false\<close> for a file that cannot be read, and
  \<open>trim(false)\<close> is the empty string: a missing file reads as \<open>''''\<close>.
\<close>

definition file_get_contents :: "sandbox \<Rightarrow> path \<Rightarrow> string" where
  "file_get_contents s p = (case files s p of None \<Rightarrow> '''' | Some f \<Rightarrow> content f)"

text \<open>
  \<open>unlink\<close> removes the entry when the process is allowed to; \<open>None\<close> is PHP's
  \<open>false\<close>.
\<close>

definition unlink :: "path \<Rightarrow> sandbox \<Rightarrow> sandbox option" where
  "unlink p s =
     (if unlink_permitted s \<and> files s p \<noteq> None
      then Some (s\<lparr>files := (files s)(p := None)\<rparr>)
      else None)"

subsection \<open>admin.php\<close>

text \<open>
  A request parameter is a string or, for \<open>code[]=...\<close>, an array. \<open>$_POST['code'] ??
  $_GET['code'] ?? ''\<close> takes the POST parameter first.
\<close>

datatype param = PString string | PArray "(string \<times> param) list"

record request =
  POST_code :: "param option"
  GET_code :: "param option"

definition request_code :: "request \<Rightarrow> param" where
  "request_code r =
     (case POST_code r of
        Some v \<Rightarrow> v
      | None \<Rightarrow> (case GET_code r of Some v \<Rightarrow> v | None \<Rightarrow> PString ''''))"

text \<open>PHP's \<open>trim\<close> strips space, tab, newline, carriage return, NUL and vertical tab.\<close>

definition is_trimmed_char :: "char \<Rightarrow> bool" where
  "is_trimmed_char c =
     (c = CHR 0x20 \<or> c = CHR 0x09 \<or> c = CHR 0x0A \<or> c = CHR 0x0D \<or> c = CHR 0x00 \<or> c = CHR 0x0B)"

definition trim :: "string \<Rightarrow> string" where
  "trim s = rev (dropWhile is_trimmed_char (rev (dropWhile is_trimmed_char s)))"

text \<open>\<open>$code === $actual_code\<close>: same type and same value; an array is never a string.\<close>

fun identical :: "param \<Rightarrow> string \<Rightarrow> bool" where
  "identical (PString s) t = (s = t)"
| "identical (PArray kvs) t = False"

text \<open>PHP's \<open>empty\<close>: the empty string, the string \<open>"0"\<close> and the empty array.\<close>

fun empty :: "param \<Rightarrow> bool" where
  "empty (PString s) = (s = '''' \<or> s = ''0'')"
| "empty (PArray kvs) = (kvs = [])"

definition msg_success :: string where
  "msg_success = ''SUCCESS: Flag deleted. You have conquered this node.''"

definition msg_error :: string where
  "msg_error = ''ERROR: Could not delete flag (permission denied?)''"

definition msg_already :: string where
  "msg_already = ''Flag already deleted.''"

definition msg_denied :: string where
  "msg_denied = ''Access Denied. Invalid Code.''"

definition admin_php :: "request \<Rightarrow> sandbox \<Rightarrow> string \<times> sandbox" where
  "admin_php r s =
     (let code = request_code r;
          actual_code = trim (file_get_contents s secret_path)
      in if identical code actual_code \<and> \<not> empty code then
           if file_exists s flag_path then
             (case unlink flag_path s of
                Some s' \<Rightarrow> (msg_success, s')
              | None \<Rightarrow> (msg_error, s))
           else (msg_already, s)
         else (msg_denied, s))"

text \<open>
  The page is served by Apache: with the web server down, a request gets no response and
  changes nothing.
\<close>

definition http_admin :: "request \<Rightarrow> sandbox \<Rightarrow> (string \<times> sandbox) option" where
  "http_admin r s = (if Apache2 \<in> services s then Some (admin_php r s) else None)"

text \<open>A sequence of requests to \<open>admin.php\<close>: the responses in order, and the final state.\<close>

fun serve :: "request list \<Rightarrow> sandbox \<Rightarrow> string list \<times> sandbox" where
  "serve [] s = ([], s)"
| "serve (r # rs) s =
     (let (out, s') = admin_php r s;
          (outs, s'') = serve rs s'
      in (out # outs, s''))"

subsection \<open>entrypoint.sh\<close>

text \<open>
  The script's two random sources are arguments of the model: \<open>urandom n\<close> is the
  \<open>n\<close>-th byte that the run's \<open>openssl rand\<close> calls read, and \<open>RANDOM n\<close> is the value
  of the \<open>n\<close>-th reference to bash's \<open>$RANDOM\<close>, a 15-bit number (0 to 32767).
\<close>

record rng =
  urandom :: "nat \<Rightarrow> 8 word"
  RANDOM :: "nat \<Rightarrow> 15 word"


definition hex_digit :: "nat \<Rightarrow> char" where
  "hex_digit n = ''0123456789abcdef'' ! (n mod 16)"

definition hex_byte :: "8 word \<Rightarrow> string" where
  "hex_byte b = [hex_digit (unat b div 16), hex_digit (unat b mod 16)]"

text \<open>\<open>openssl rand -hex n\<close> reading the bytes \<open>src 0\<close>, ..., \<open>src (n - 1)\<close>.\<close>

definition openssl_rand_hex :: "nat \<Rightarrow> (nat \<Rightarrow> 8 word) \<Rightarrow> string" where
  "openssl_rand_hex n src = concat (map (\<lambda>i. hex_byte (src i)) [0..<n])"

definition octal :: "nat list \<Rightarrow> nat" where
  "octal ds = foldl (\<lambda>a d. 8 * a + d) 0 ds"

text \<open>
  \<open>echo line > p\<close> truncates an existing file and keeps its mode, or creates the file
  with mode 644 (root's umask 022). \<open>echo line >> p\<close> appends.
\<close>

definition echo_to :: "path \<Rightarrow> string \<Rightarrow> sandbox \<Rightarrow> sandbox" where
  "echo_to p line s =
     s\<lparr>files := (files s)(p \<mapsto>
        \<lparr>content = line @ [newline],
         mode = (case files s p of None \<Rightarrow> octal [6, 4, 4] | Some f \<Rightarrow> mode f)\<rparr>)\<rparr>"

definition echo_append :: "path \<Rightarrow> string \<Rightarrow> sandbox \<Rightarrow> sandbox" where
  "echo_append p line s =
     s\<lparr>files := (files s)(p \<mapsto>
        (case files s p of
           None \<Rightarrow> \<lparr>content = line @ [newline], mode = octal [6, 4, 4]\<rparr>
         | Some f \<Rightarrow> f\<lparr>content := content f @ line @ [newline]\<rparr>))\<rparr>"

definition chmod :: "nat \<Rightarrow> path \<Rightarrow> sandbox \<Rightarrow> sandbox" where
  "chmod m p s =
     (case files s p of
        None \<Rightarrow> s
      | Some f \<Rightarrow> s\<lparr>files := (files s)(p \<mapsto> f\<lparr>mode := m\<rparr>)\<rparr>)"

definition echo :: "string \<Rightarrow> sandbox \<Rightarrow> sandbox" where
  "echo line s = s\<lparr>stdout := stdout s @ [line]\<rparr>"

definition chpasswd_root :: "string \<Rightarrow> sandbox \<Rightarrow> sandbox" where
  "chpasswd_root pw s = s\<lparr>root_password := Some pw\<rparr>"

definition service_start :: "service \<Rightarrow> sandbox \<Rightarrow> sandbox" where
  "service_start v s = s\<lparr>services := insert v (services s)\<rparr>"

definition sshd_config :: path where
  "sshd_config = ''/etc/ssh/sshd_config''"

definition PASSWORDS :: "string list" where
  "PASSWORDS =
     [''password'', ''123456'', ''dragon'', ''admin'', ''root'', ''toor'', ''letmein'', ''qwerty'']"

definition ADMIN_CODE :: "rng \<Rightarrow> string" where
  "ADMIN_CODE g = openssl_rand_hex 8 (urandom g)"

definition digit :: "nat \<Rightarrow> char" where
  "digit n = ''0123456789'' ! (n mod 10)"

text \<open>
  \<open>PROFILE=$((1 + RANDOM % 3))\<close>, the first reference to \<open>$RANDOM\<close>. The value has
  one decimal digit, which is how \<open>$PROFILE\<close> prints.
\<close>

definition PROFILE :: "rng \<Rightarrow> nat" where
  "PROFILE g = 1 + unat (RANDOM g 0) mod 3"

text \<open>
  \<open>${PASSWORDS[$RANDOM % ${#PASSWORDS[@]}]}\<close>, the second reference to \<open>$RANDOM\<close>; the
  index is below the array's length.
\<close>

definition SELECTED_PASS :: "rng \<Rightarrow> string" where
  "SELECTED_PASS g = PASSWORDS ! (unat (RANDOM g 1) mod length PASSWORDS)"

text \<open>
  Lines 4 to 15: the admin code, the flag and the choice of the profile. The commands are
  run by root in a fresh container and are taken to succeed (\<open>set -e\<close> would stop the
  script otherwise).
\<close>

definition initialize :: "rng \<Rightarrow> sandbox \<Rightarrow> sandbox" where
  "initialize g s0 =
     (let s1 = echo_to secret_path (ADMIN_CODE g) s0;
          s2 = chmod (octal [6, 4, 4]) secret_path s1;
          s3 = echo_to flag_path ''CAPTURE THIS FLAG'' s2;
          s4 = chmod (octal [6, 6, 6]) flag_path s3
      in echo_to ''/profile.info'' (''Selected Profile: '' @ [digit (PROFILE g)]) s4)"

text \<open>Lines 18 to 29. Apache is not started in this profile.\<close>

definition profile_1 :: "rng \<Rightarrow> sandbox \<Rightarrow> sandbox" where
  "profile_1 g s0 =
     (let s1 = echo ''Initializing Profile 1: Weak SSH'' s0;
          s2 = chpasswd_root (SELECTED_PASS g) s1;
          s3 = echo_append sshd_config ''PermitRootLogin yes'' s2;
          s4 = echo_append sshd_config ''PasswordAuthentication yes'' s3
      in service_start Ssh s4)"

text \<open>
  Lines 31 to 51. The \<open>mysql\<close> statements create the two tables of the database
  \<open>secrets\<close> and fill them; root's password is 12 further random bytes in hexadecimal.
\<close>

definition profile_2 :: "rng \<Rightarrow> sandbox \<Rightarrow> sandbox" where
  "profile_2 g s0 =
     (let s1 = echo ''Initializing Profile 2: SQL Injection'' s0;
          s2 = service_start Mariadb s1;
          s3 = service_start Apache2 s2;
          s4 = s3\<lparr>secrets_users := [], secrets_config := []\<rparr>;
          s5 = s4\<lparr>secrets_config := secrets_config s4 @ [(''admin_code'', ADMIN_CODE g)]\<rparr>;
          s6 = s5\<lparr>secrets_users :=
                    secrets_users s5 @ [(''admin'', ''uncrackable''), (''guest'', ''guest'')]\<rparr>;
          s7 = chpasswd_root (openssl_rand_hex 12 (\<lambda>i. urandom g (8 + i))) s6
      in service_start Ssh s7)"

text \<open>
  Lines 53 to 65. \<open>mkdir -p\<close> makes the directory of \<open>keys.txt\<close>; the state keeps files
  by their full path, so the directory needs no entry of its own.
\<close>

definition profile_3 :: "rng \<Rightarrow> sandbox \<Rightarrow> sandbox" where
  "profile_3 g s0 =
     (let s1 = echo ''Initializing Profile 3: Hidden Web File'' s0;
          s2 = service_start Apache2 s1;
          s3 = echo_to ''/var/www/html/secret_ops/keys.txt''
                 (''The admin code is: '' @ ADMIN_CODE g) s2;
          s4 = chpasswd_root (openssl_rand_hex 12 (\<lambda>i. urandom g (8 + i))) s3
      in service_start Ssh s4)"

text \<open>\<open>case $PROFILE in 1) ... 2) ... 3) ... esac\<close>: no branch for another value.\<close>

definition profile_setup :: "rng \<Rightarrow> sandbox \<Rightarrow> sandbox" where
  "profile_setup g s =
     (if PROFILE g = 1 then profile_1 g s
      else if PROFILE g = 2 then profile_2 g s
      else if PROFILE g = 3 then profile_3 g s
      else s)"

text \<open>
  The whole script up to \<open>Container Ready\<close>; the closing \<open>tail -f /dev/null\<close> keeps the
  container alive and changes nothing.
\<close>

definition entrypoint :: "rng \<Rightarrow> sandbox \<Rightarrow> sandbox" where
  "entrypoint g img =
     echo (''Container Ready. Profile '' @ [digit (PROFILE g)] @ '' active.'')
       (profile_setup g (initialize g img))"

text \<open>
  A container at its start: an empty file system as far as the script's paths go, no
  password set, nothing running.
\<close>

definition fresh_image :: "bool \<Rightarrow> sandbox" where
  "fresh_image may_unlink =
     \<lparr>files = Map.empty, root_password = None, services = {}, secrets_config = [],
      secrets_users = [], stdout = [], unlink_permitted = may_unlink\<rparr>"

text \<open>The write bit of "others" in a file mode: any user may write the file.\<close>

definition other_may_write :: "nat \<Rightarrow> bool" where
  "other_may_write m = odd (m div 2)"

text \<open>
  A run whose random bytes are all \<open>b\<close>, whose first value of \<open>$RANDOM\<close> is \<open>r0\<close> and
  whose later values are \<open>r1\<close>.
\<close>

definition example_rng :: "8 word \<Rightarrow> 15 word \<Rightarrow> 15 word \<Rightarrow> rng" where
  "example_rng b r0 r1 = \<lparr>urandom = (\<lambda>i. b), RANDOM = (\<lambda>i. if i = 0 then r0 else r1)\<rparr>"

subsection \<open>Measures over the random sources\<close>




text \<open>What \<open>openssl rand -hex 8\<close> can print: 16 lower-case hexadecimal digits.\<close>

definition is_admin_code :: "string \<Rightarrow> bool" where
  "is_admin_code c = (length c = 16 \<and> list_all (\<lambda>x. x \<in> set ''0123456789abcdef'') c)"

section \<open>The action log table\<close>

text \<open>
  The table \<open>action_logs\<close> of the schema (\<open>CREATE TABLE action_logs\<close>): a row has an
  \<open>id\<close> of type \<open>BIGSERIAL\<close>, the participant, the command, the output, the success
  bit and \<open>created_at\<close>. The columns without \<open>NOT NULL\<close> may be null. There is no
  column for a number per participant.
\<close>

type_synonym uuid = "128 word"

record action_log =
  id' :: nat
  participant_id :: "uuid option"
  command :: string
  "output" :: "string option"
  was_successful :: "bool option"
  created_at :: nat






section \<open>The orchestration core\<close>

text \<open>
  The backend that starts battles and updates the rankings
  (\<open>battle.py\<close>, \<open>battle_service.py\<close>, \<open>battle_crud.py\<close>) is described by the
  repository's documents but is not among its sources. The definitions of this section
  follow the specification.
\<close>

text \<open>
  Modelled from the spec: the data model of section 3 (\<open>Match\<close>, \<open>Participant\<close>, the
  match's outcome) and the \<open>ValidationError\<close> of section 4.1; the backend's models are
  not among the sources. Identities are numbers.
\<close>

type_synonym agent_id = nat
type_synonym match_id = nat
type_synonym participant_id = nat
type_synonym user_id = nat

datatype match_status = lobby | ongoing | completed | aborted

datatype outcome = victory participant_id | draw

record participant =
  agentRef :: agent_id
  internalIP :: "nat \<times> nat \<times> nat \<times> nat"
  isAlive :: bool

record match_rec =
  status :: match_status
  winner :: "participant_id option"
  participants :: "participant list"

record coordinator =
  matches :: "match_id \<rightharpoonup> match_rec"
  next_match :: match_id

datatype error = ValidationError

subsection \<open>Match Coordinator\<close>

text \<open>
  Modelled from the spec: the Network Allocator's \<open>AllocateIP\<close> (section 4.2), sequential
  from the base \<open>10.5.0.10\<close>; the backend's network code is not among the sources.
\<close>

definition AllocateIP :: "nat \<Rightarrow> nat \<times> nat \<times> nat \<times> nat" where
  "AllocateIP participantIndex = (10, 5, 0, 10 + participantIndex)"

text \<open>
  Modelled from the spec: the Match Coordinator's \<open>StartMatch\<close> (section 4.1), whose code
  (\<open>battle.py\<close>, \<open>battle_service.py\<close>) is not among the sources. It rejects a participant
  count outside \<open>[minParticipants, maxParticipants]\<close>; on accept the match goes from
  \<open>lobby\<close> to \<open>ongoing\<close> with one participant per agent reference. The agent references
  are those the boundary has already checked for ownership, as the specification assumes.
\<close>

definition StartMatch ::
  "agent_id list \<Rightarrow> nat \<Rightarrow> nat \<Rightarrow> coordinator \<Rightarrow> error + (match_id \<times> coordinator)" where
  "StartMatch participantAgentRefs maxParticipants minParticipants c =
     (if length participantAgentRefs < minParticipants
         \<or> maxParticipants < length participantAgentRefs
      then Inl ValidationError
      else
        let matchId = next_match c;
            created = \<lparr>status = lobby, winner = None,
                       participants =
                         map (\<lambda>(i, a). \<lparr>agentRef = a, internalIP = AllocateIP i, isAlive = True\<rparr>)
                           (zip [0..<length participantAgentRefs] participantAgentRefs)\<rparr>;
            started = created\<lparr>status := ongoing\<rparr>
        in Inr (matchId, c\<lparr>matches := (matches c)(matchId \<mapsto> started),
                             next_match := Suc matchId\<rparr>))"

text \<open>
  Modelled from the spec: the exposed \<open>StartBattle\<close> (section 6), whose endpoint code
  (\<open>battle.py\<close>) is not among the sources: \<open>StartMatch\<close> with the default bounds
  \<open>maxParticipants = 10\<close> and \<open>minParticipants = 2\<close>.
\<close>

definition StartBattle :: "agent_id list \<Rightarrow> coordinator \<Rightarrow> error + (match_id \<times> coordinator)" where
  "StartBattle participantAgentIds c = StartMatch participantAgentIds 10 2 c"

text \<open>
  Modelled from the spec: what the Match Coordinator, the only writer of \<open>Match.status\<close>,
  reacts to (sections 4.1, 4.5 and 7); its code is not among the sources. \<open>Accept\<close> is the
  acceptance of \<open>StartMatch\<close>, \<open>Resolve\<close> a terminal condition (a victory, or a draw when
  the time budget elapses), \<open>ProvisioningError\<close> a failed network or container creation,
  \<open>Abort\<close> the abort request.
\<close>

datatype event = Accept | Resolve outcome | ProvisioningError | Abort

text \<open>
  Modelled from the spec: the Match Coordinator's transitions (sections 3, 4.1 and 7); its
  code is not among the sources. \<open>Abort\<close> on a terminal match is a no-op; a match is
  aborted, or resolved, only while it is \<open>ongoing\<close> (\<open>StartMatch\<close> hands out the match's
  identity once the match is \<open>ongoing\<close>, so no abort request names a match in \<open>lobby\<close>),
  and the winner is set only by a decisive outcome.
\<close>

fun coordinator_step :: "event \<Rightarrow> match_rec \<Rightarrow> match_rec" where
  "coordinator_step Accept m =
     (if status m = lobby then m\<lparr>status := ongoing\<rparr> else m)"
| "coordinator_step (Resolve oc) m =
     (if status m = ongoing
      then m\<lparr>status := completed,
              winner := (case oc of victory p \<Rightarrow> Some p | draw \<Rightarrow> None)\<rparr>
      else m)"
| "coordinator_step ProvisioningError m =
     (if status m = ongoing then m\<lparr>status := aborted\<rparr> else m)"
| "coordinator_step Abort m =
     (if status m = ongoing then m\<lparr>status := aborted\<rparr> else m)"

text \<open>
  Modelled from the spec: the life of a match, as the statuses it goes through under a
  sequence of events, the first status included.
\<close>

fun status_trace :: "event list \<Rightarrow> match_rec \<Rightarrow> match_status list" where
  "status_trace [] m = [status m]"
| "status_trace (e # es) m = status m # status_trace es (coordinator_step e m)"

text \<open>
  Modelled from the spec: the status transitions of a trace, the pairs of neighbours that
  differ.
\<close>

definition status_changes :: "match_status list \<Rightarrow> (match_status \<times> match_status) list" where
  "status_changes tr = filter (\<lambda>(a, b). a \<noteq> b) (zip tr (tl tr))"

text \<open>
  Modelled from the spec: the edges \<open>lobby \<rightarrow> ongoing \<rightarrow> {completed, aborted}\<close> of
  section 8.
\<close>

fun edge :: "match_status \<times> match_status \<Rightarrow> bool" where
  "edge (lobby, ongoing) = True"
| "edge (ongoing, completed) = True"
| "edge (ongoing, aborted) = True"
| "edge (a, b) = False"

subsection \<open>Ranking Updater\<close>

text \<open>
  Modelled from the spec: the statistics of a user that the updater adjusts (section 4.6).
\<close>

record user_stats =
  wins :: int
  losses :: int
  matchesPlayed :: int
  rankPoints :: int

text \<open>
  Modelled from the spec: the store the updater works on: the statistics of each user, the
  matches whose ranking has been applied (the marker of section 4.6), and for each match
  its participants with their owning users.
\<close>

record ranking_store =
  stats :: "user_id \<Rightarrow> user_stats"
  ranking_applied :: "match_id set"
  roster :: "match_id \<Rightarrow> (participant_id \<times> user_id) list"

text \<open>
  Modelled from the spec: the delta of one participant (section 4.6); the updater's code
  is not among the sources. The specification fixes no point values, so the points for a
  win and for a loss are parameters. On a draw only \<open>matchesPlayed\<close> grows.
\<close>

definition adjust :: "int \<Rightarrow> int \<Rightarrow> outcome \<Rightarrow> participant_id \<Rightarrow> user_stats \<Rightarrow> user_stats" where
  "adjust winPoints lossPoints oc p st =
     (case oc of
        draw \<Rightarrow> st\<lparr>matchesPlayed := matchesPlayed st + 1\<rparr>
      | victory w \<Rightarrow>
          if p = w
          then st\<lparr>wins := wins st + 1, matchesPlayed := matchesPlayed st + 1,
                  rankPoints := rankPoints st + winPoints\<rparr>
          else st\<lparr>losses := losses st + 1, matchesPlayed := matchesPlayed st + 1,
                  rankPoints := rankPoints st + lossPoints\<rparr>)"

text \<open>
  Modelled from the spec: \<open>RankingUpdater.Apply\<close> (section 4.6), guarded by the per-match
  "ranking applied" marker; the updater's code is not among the sources.
\<close>

definition Apply :: "int \<Rightarrow> int \<Rightarrow> match_id \<Rightarrow> outcome \<Rightarrow> ranking_store \<Rightarrow> ranking_store" where
  "Apply winPoints lossPoints matchId oc rs =
     (if matchId \<in> ranking_applied rs then rs
      else rs\<lparr>stats :=
                 fold (\<lambda>(p, u) f. f(u := adjust winPoints lossPoints oc p (f u)))
                   (roster rs matchId) (stats rs),
               ranking_applied := insert matchId (ranking_applied rs)\<rparr>)"


section \<open>Properties of the target sandbox\<close>

lemma hex_chars_not_trimmed:
  "x \<in> set ''0123456789abcdef'' \<Longrightarrow> \<not> is_trimmed_char x"
  by (auto simp: is_trimmed_char_def)

lemma trim_line:
  assumes "c \<noteq> []" "\<not> is_trimmed_char (hd c)" "\<not> is_trimmed_char (last c)"
  shows "trim (c @ [newline]) = c"
proof -
  obtain x xs where c: "c = x # xs" using assms(1) by (cases c) auto
  have 1: "dropWhile is_trimmed_char (c @ [newline]) = c @ [newline]"
    using assms(2) c by simp
  obtain ys y where r: "rev c = y # ys" using assms(1) by (cases "rev c") auto
  then have "y = last c" using assms(1) by (metis list.sel(1) hd_rev)
  then have "\<not> is_trimmed_char y" using assms(3) by simp
  then have 2: "dropWhile is_trimmed_char (rev c) = rev c" unfolding r by simp
  have nl: "is_trimmed_char newline" by (simp add: is_trimmed_char_def newline_def)
  show ?thesis by (simp add: trim_def 1 2 nl)
qed

lemma admin_code_trim:
  assumes "is_admin_code c"
  shows "trim (c @ [newline]) = c" and "c \<noteq> []" and "c \<noteq> ''0''"
proof -
  from assms have len: "length c = 16" and all: "\<forall>x\<in>set c. x \<in> set ''0123456789abcdef''"
    by (auto simp: is_admin_code_def list_all_iff)
  from len show ne: "c \<noteq> []" by auto
  from len show "c \<noteq> ''0''" by auto
  have "hd c \<in> set c" "last c \<in> set c" using ne by auto
  then have "\<not> is_trimmed_char (hd c)" "\<not> is_trimmed_char (last c)"
    using all hex_chars_not_trimmed by blast+
  then show "trim (c @ [newline]) = c" using ne by (rule_tac trim_line)
qed

lemma hex_digit_in: "hex_digit n \<in> set ''0123456789abcdef''"
proof -
  have "n mod 16 < length ''0123456789abcdef''" by simp
  then show ?thesis unfolding hex_digit_def by (rule nth_mem)
qed

lemma openssl_rand_hex_length: "length (openssl_rand_hex n src) = 2 * n"
  unfolding openssl_rand_hex_def by (induction n) (simp_all add: hex_byte_def)

lemma openssl_rand_hex_chars:
  "list_all (\<lambda>x. x \<in> set ''0123456789abcdef'') (openssl_rand_hex n src)"
  unfolding openssl_rand_hex_def
  by (induction n) (simp_all add: hex_byte_def hex_digit_in del: set_simps)

lemma ADMIN_CODE_is_admin_code: "is_admin_code (ADMIN_CODE g)"
  by (simp add: is_admin_code_def ADMIN_CODE_def openssl_rand_hex_length openssl_rand_hex_chars del: set_simps)


lemmas prim_defs = echo_to_def echo_append_def chmod_def echo_def chpasswd_root_def
  service_start_def

lemmas path_defs = flag_path_def secret_path_def sshd_config_def

lemma profile_setup_files:
  "files (profile_setup g s) flag_path = files s flag_path"
  "files (profile_setup g s) secret_path = files s secret_path"
  "unlink_permitted (profile_setup g s) = unlink_permitted s"
  by (simp_all add: profile_setup_def profile_1_def profile_2_def profile_3_def Let_def
        prim_defs path_defs split: option.splits)

lemma initialize_files:
  "files (initialize g img) flag_path =
     Some \<lparr>content = ''CAPTURE THIS FLAG'' @ [newline], mode = octal [6, 6, 6]\<rparr>"
  "files (initialize g img) secret_path =
     Some \<lparr>content = ADMIN_CODE g @ [newline], mode = octal [6, 4, 4]\<rparr>"
  "unlink_permitted (initialize g img) = unlink_permitted img"
  by (simp_all add: initialize_def Let_def prim_defs path_defs split: option.splits)

lemma entrypoint_files:
  "files (entrypoint g img) flag_path =
     Some \<lparr>content = ''CAPTURE THIS FLAG'' @ [newline], mode = octal [6, 6, 6]\<rparr>"
  "files (entrypoint g img) secret_path =
     Some \<lparr>content = ADMIN_CODE g @ [newline], mode = octal [6, 4, 4]\<rparr>"
  "unlink_permitted (entrypoint g img) = unlink_permitted img"
  by (simp_all add: entrypoint_def echo_def profile_setup_files initialize_files)

lemma entrypoint_secret: "file_get_contents (entrypoint g img) secret_path = ADMIN_CODE g @ [newline]"
  by (simp add: file_get_contents_def entrypoint_files)

lemma admin_php_provisioned:
  assumes "is_admin_code c" and "file_get_contents s secret_path = c @ [newline]"
  shows "admin_php r s =
     (if request_code r = PString c then
        if file_exists s flag_path then
          if unlink_permitted s then (msg_success, s\<lparr>files := (files s)(flag_path := None)\<rparr>)
          else (msg_error, s)
        else (msg_already, s)
      else (msg_denied, s))"
proof -
  have t: "trim (file_get_contents s secret_path) = c" and ne: "c \<noteq> []" "c \<noteq> ''0''"
    using assms admin_code_trim by simp_all
  show ?thesis
  proof (cases "request_code r")
    case (PString x)
    then show ?thesis using ne
      by (auto simp: admin_php_def t Let_def unlink_def file_exists_def)
  next
    case (PArray kvs)
    then show ?thesis by (simp add: admin_php_def t Let_def)
  qed
qed

lemma admin_php_keeps:
  "files (snd (admin_php r s)) secret_path = files s secret_path"
  "unlink_permitted (snd (admin_php r s)) = unlink_permitted s"
  "services (snd (admin_php r s)) = services s"
  by (auto simp: admin_php_def Let_def unlink_def path_defs split: option.splits)

lemma msgs_distinct:
  "msg_success \<noteq> msg_error" "msg_success \<noteq> msg_already" "msg_success \<noteq> msg_denied"
  by (simp_all add: msg_success_def msg_error_def msg_already_def msg_denied_def)

lemma admin_php_flag:
  "file_exists (snd (admin_php r s)) flag_path =
     (file_exists s flag_path \<and> fst (admin_php r s) \<noteq> msg_success)"
  by (auto simp: admin_php_def Let_def unlink_def file_exists_def msgs_distinct
        msgs_distinct[symmetric] split: option.splits if_splits)

lemma serve_flag:
  "file_exists (snd (serve rs s)) flag_path =
     (file_exists s flag_path \<and> msg_success \<notin> set (fst (serve rs s)))"
proof (induction rs arbitrary: s)
  case Nil
  then show ?case by simp
next
  case (Cons r rs)
  obtain out s' where a: "admin_php r s = (out, s')" by (cases "admin_php r s")
  obtain outs s'' where b: "serve rs s' = (outs, s'')" by (cases "serve rs s'")
  have "file_exists s' flag_path = (file_exists s flag_path \<and> out \<noteq> msg_success)"
    using admin_php_flag[of r s] a by simp
  moreover have "file_exists s'' flag_path = (file_exists s' flag_path \<and> msg_success \<notin> set outs)"
    using Cons.IH[of s'] b by simp
  ultimately show ?case using a b by auto
qed

lemma serve_keeps:
  "files (snd (serve rs s)) secret_path = files s secret_path"
proof (induction rs arbitrary: s)
  case Nil
  then show ?case by simp
next
  case (Cons r rs)
  obtain out s' where a: "admin_php r s = (out, s')" by (cases "admin_php r s")
  obtain outs s'' where b: "serve rs s' = (outs, s'')" by (cases "serve rs s'")
  have "files s' secret_path = files s secret_path" using admin_php_keeps(1)[of r s] a by simp
  moreover have "files s'' secret_path = files s' secret_path" using Cons.IH[of s'] b by simp
  ultimately show ?case using a b by simp
qed

lemma example_code: "ADMIN_CODE (example_rng 0 r0 r1) = ''0000000000000000''"
  by (simp add: ADMIN_CODE_def example_rng_def openssl_rand_hex_def hex_byte_def hex_digit_def upt_rec)

lemma example_is_admin_code: "is_admin_code ''0000000000000000''"
  using ADMIN_CODE_is_admin_code[of "example_rng 0 3 8"] by (simp only: example_code)

text \<open>
  Claim C1, as amended. In a sandbox whose secret file holds a provisioned admin code
  (16 hexadecimal digits and the newline of \<open>echo\<close>), a request to \<open>admin.php\<close> takes
  the flag from present to cleared if and only if the presented code is that admin code
  (which is not empty), the flag file is present and the server's process is allowed to
  unlink it. For every other presented code (the empty string and an array included) the
  response is the denial and the sandbox is unchanged.
\<close>
theorem admin_php_clears_flag_iff:
  assumes "is_admin_code c" and "file_get_contents s secret_path = c @ [newline]"
  shows "((file_exists s flag_path \<and> \<not> file_exists (snd (admin_php r s)) flag_path) =
           (request_code r = PString c \<and> c \<noteq> '''' \<and> file_exists s flag_path \<and> unlink_permitted s))
         \<and> (request_code r \<noteq> PString c \<or> c = '''' \<longrightarrow> admin_php r s = (msg_denied, s))"
proof -
  have ne: "c \<noteq> []" using assms(1) admin_code_trim(2) by simp
  show ?thesis
    unfolding admin_php_provisioned[OF assms] using ne
    by (auto simp: file_exists_def path_defs)
qed

theorem admin_php_clears_flag_iff_witness:
  "is_admin_code ''0000000000000000''
   \<and> file_get_contents (entrypoint (example_rng 0 1 8) (fresh_image True)) secret_path
       = ''0000000000000000'' @ [newline]
   \<and> file_exists (entrypoint (example_rng 0 1 8) (fresh_image True)) flag_path
   \<and> \<not> file_exists (snd (admin_php \<lparr>POST_code = Some (PString ''0000000000000000''), GET_code = None\<rparr>
        (entrypoint (example_rng 0 1 8) (fresh_image True)))) flag_path
   \<and> admin_php \<lparr>POST_code = None, GET_code = None\<rparr> (entrypoint (example_rng 0 1 8) (fresh_image True))
       = (msg_denied, entrypoint (example_rng 0 1 8) (fresh_image True))"
proof -
  let ?S = "entrypoint (example_rng 0 1 8) (fresh_image True)"
  have s: "file_get_contents ?S secret_path = ''0000000000000000'' @ [newline]"
    using entrypoint_secret[of "example_rng 0 1 8"] by (simp only: example_code)
  have f: "file_exists ?S flag_path" by (simp add: file_exists_def entrypoint_files)
  have u: "unlink_permitted ?S" by (simp add: entrypoint_files fresh_image_def)
  show ?thesis
    using admin_php_clears_flag_iff[OF example_is_admin_code s,
            of "\<lparr>POST_code = Some (PString ''0000000000000000''), GET_code = None\<rparr>"]
      admin_php_clears_flag_iff[OF example_is_admin_code s, of "\<lparr>POST_code = None, GET_code = None\<rparr>"]
      example_is_admin_code s f u
    by (simp add: request_code_def)
qed

text \<open>
  Claim C1 as stated fails: the sandbox provisioned from zero bytes holds the admin code
  \<open>0000000000000000\<close>; where the server's process may not unlink \<open>/flag.txt\<close>, the
  request presenting exactly that non-empty code gets the error message of line 13 and
  the flag stays present.
\<close>
theorem admin_php_correct_code_not_cleared:
  "request_code \<lparr>POST_code = Some (PString ''0000000000000000''), GET_code = None\<rparr>
      = PString (trim (file_get_contents (entrypoint (example_rng 0 1 8) (fresh_image False)) secret_path))
   \<and> ''0000000000000000'' \<noteq> ''''
   \<and> file_exists (entrypoint (example_rng 0 1 8) (fresh_image False)) flag_path
   \<and> admin_php \<lparr>POST_code = Some (PString ''0000000000000000''), GET_code = None\<rparr>
        (entrypoint (example_rng 0 1 8) (fresh_image False))
      = (msg_error, entrypoint (example_rng 0 1 8) (fresh_image False))"
proof -
  have c: "ADMIN_CODE (example_rng 0 1 8) = ''0000000000000000''"
    by (simp add: ADMIN_CODE_def example_rng_def openssl_rand_hex_def hex_byte_def hex_digit_def upt_rec)
  have a: "is_admin_code ''0000000000000000''" using ADMIN_CODE_is_admin_code[of "example_rng 0 1 8"] c by simp
  have s: "file_get_contents (entrypoint (example_rng 0 1 8) (fresh_image False)) secret_path
           = ''0000000000000000'' @ [newline]"
    using entrypoint_secret[of "example_rng 0 1 8"] c by simp
  show ?thesis
    unfolding admin_php_provisioned[OF a s] s admin_code_trim(1)[OF a]
    by (simp add: request_code_def file_exists_def entrypoint_files fresh_image_def)
qed


text \<open>
  Claim C2. Once the flag file is deleted, no sequence of requests to \<open>admin.php\<close> brings
  it back, and every later request presenting the provisioned admin code is answered
  "Flag already deleted." and leaves the sandbox as it is.
\<close>
theorem flag_clearing_irreversible:
  assumes "is_admin_code c" and "file_get_contents s secret_path = c @ [newline]"
    and "\<not> file_exists s flag_path"
  shows "\<not> file_exists (snd (serve rs s)) flag_path
         \<and> (request_code r = PString c \<longrightarrow>
              admin_php r (snd (serve rs s)) = (msg_already, snd (serve rs s)))"
proof -
  let ?s = "snd (serve rs s)"
  have gone: "\<not> file_exists ?s flag_path" using assms(3) by (simp add: serve_flag)
  have "file_get_contents ?s secret_path = c @ [newline]"
    using assms(2) by (simp add: file_get_contents_def serve_keeps)
  from admin_php_provisioned[OF assms(1) this, of r] gone show ?thesis by simp
qed

theorem flag_clearing_irreversible_witness:
  "is_admin_code ''0000000000000000''
   \<and> file_get_contents ((fresh_image True)\<lparr>files := [secret_path \<mapsto>
         \<lparr>content = ''0000000000000000'' @ [newline], mode = octal [6, 4, 4]\<rparr>]\<rparr>) secret_path
       = ''0000000000000000'' @ [newline]
   \<and> \<not> file_exists ((fresh_image True)\<lparr>files := [secret_path \<mapsto>
         \<lparr>content = ''0000000000000000'' @ [newline], mode = octal [6, 4, 4]\<rparr>]\<rparr>) flag_path
   \<and> \<not> file_exists (snd (serve [\<lparr>POST_code = None, GET_code = Some (PString ''0000000000000000'')\<rparr>]
         ((fresh_image True)\<lparr>files := [secret_path \<mapsto>
         \<lparr>content = ''0000000000000000'' @ [newline], mode = octal [6, 4, 4]\<rparr>]\<rparr>))) flag_path
   \<and> fst (admin_php \<lparr>POST_code = Some (PString ''0000000000000000''), GET_code = None\<rparr>
         (snd (serve [\<lparr>POST_code = None, GET_code = Some (PString ''0000000000000000'')\<rparr>]
         ((fresh_image True)\<lparr>files := [secret_path \<mapsto>
         \<lparr>content = ''0000000000000000'' @ [newline], mode = octal [6, 4, 4]\<rparr>]\<rparr>)))) = msg_already"
proof -
  let ?S = "(fresh_image True)\<lparr>files := [secret_path \<mapsto>
         \<lparr>content = ''0000000000000000'' @ [newline], mode = octal [6, 4, 4]\<rparr>]\<rparr>"
  have s: "file_get_contents ?S secret_path = ''0000000000000000'' @ [newline]"
    by (simp add: file_get_contents_def)
  have f: "\<not> file_exists ?S flag_path" by (simp add: file_exists_def path_defs)
  show ?thesis
    using flag_clearing_irreversible[OF example_is_admin_code s f,
            of "[\<lparr>POST_code = None, GET_code = Some (PString ''0000000000000000'')\<rparr>]"
               "\<lparr>POST_code = Some (PString ''0000000000000000''), GET_code = None\<rparr>"]
      example_is_admin_code s f
    by (simp add: request_code_def)
qed

text \<open>
  Claim C10. After lines 4 to 15 of \<open>entrypoint.sh\<close>, before the profile's branch, and
  again at the end of the script whatever the profile, \<open>/flag.txt\<close> holds
  \<open>CAPTURE THIS FLAG\<close> with mode 666 (octal; any user may write). Under any sequence of
  requests to \<open>admin.php\<close> afterwards, the flag is present exactly as long as no request
  was answered with the success message.
\<close>
theorem entrypoint_flag_present:
  "files (initialize g img) flag_path =
     Some \<lparr>content = ''CAPTURE THIS FLAG'' @ [newline], mode = octal [6, 6, 6]\<rparr>
   \<and> files (entrypoint g img) flag_path =
     Some \<lparr>content = ''CAPTURE THIS FLAG'' @ [newline], mode = octal [6, 6, 6]\<rparr>
   \<and> octal [6, 6, 6] = 438 \<and> other_may_write (octal [6, 6, 6])
   \<and> file_exists (snd (serve rs (entrypoint g img))) flag_path =
       (msg_success \<notin> set (fst (serve rs (entrypoint g img))))"
proof -
  have present: "file_exists (entrypoint g img) flag_path"
    by (simp add: file_exists_def entrypoint_files)
  have until: "file_exists (snd (serve rs (entrypoint g img))) flag_path =
       (msg_success \<notin> set (fst (serve rs (entrypoint g img))))"
    using present by (simp add: serve_flag)
  have perm: "octal [6, 6, 6] = 438" "other_may_write (octal [6, 6, 6])"
    by (simp_all add: octal_def other_may_write_def)
  show ?thesis
    using until perm initialize_files(1)[of g img] entrypoint_files(1)[of g img] by blast
qed

lemma PROFILE_range: "PROFILE g = 1 \<or> PROFILE g = 2 \<or> PROFILE g = 3"
  unfolding PROFILE_def by (simp; presburger)

lemma initialize_services: "services (initialize g img) = services img"
  by (simp add: initialize_def Let_def prim_defs split: option.splits)

lemma entrypoint_services:
  "PROFILE g = 1 \<Longrightarrow> services (entrypoint g img) = insert Ssh (services img)"
  "PROFILE g = 2 \<Longrightarrow> services (entrypoint g img) = {Ssh, Apache2, Mariadb} \<union> services img"
  "PROFILE g = 3 \<Longrightarrow> services (entrypoint g img) = {Ssh, Apache2} \<union> services img"
  by (auto simp: entrypoint_def profile_setup_def profile_1_def profile_2_def profile_3_def
        Let_def prim_defs initialize_services split: option.splits)

text \<open>
  Claim C4, as amended. The profile is 1, 2 or 3. In profiles 2 and 3 the script starts
  Apache, so \<open>admin.php\<close> answers, and presenting the admin code clears the flag where the
  server's process may unlink it. In profile 1 the script starts no web server: in a
  container where none runs already, no request to \<open>admin.php\<close> gets an answer.
\<close>
theorem endpoint_served_by_profile:
  "(PROFILE g = 1 \<or> PROFILE g = 2 \<or> PROFILE g = 3)
   \<and> (PROFILE g = 2 \<or> PROFILE g = 3 \<longrightarrow>
        http_admin r (entrypoint g img) = Some (admin_php r (entrypoint g img))
        \<and> (request_code r = PString (ADMIN_CODE g) \<and> unlink_permitted img \<longrightarrow>
             fst (admin_php r (entrypoint g img)) = msg_success
             \<and> \<not> file_exists (snd (admin_php r (entrypoint g img))) flag_path))
   \<and> (PROFILE g = 1 \<and> Apache2 \<notin> services img \<longrightarrow> http_admin r (entrypoint g img) = None)"
proof -
  have srv: "PROFILE g = 2 \<or> PROFILE g = 3 \<Longrightarrow> Apache2 \<in> services (entrypoint g img)"
    using entrypoint_services(2,3)[of g img] by auto
  have off: "PROFILE g = 1 \<Longrightarrow> Apache2 \<notin> services img \<Longrightarrow> Apache2 \<notin> services (entrypoint g img)"
    using entrypoint_services(1)[of g img] by auto
  have f: "file_exists (entrypoint g img) flag_path" by (simp add: file_exists_def entrypoint_files)
  have ok: "request_code r = PString (ADMIN_CODE g) \<Longrightarrow> unlink_permitted img \<Longrightarrow>
       fst (admin_php r (entrypoint g img)) = msg_success
       \<and> \<not> file_exists (snd (admin_php r (entrypoint g img))) flag_path"
    unfolding admin_php_provisioned[OF ADMIN_CODE_is_admin_code entrypoint_secret]
    using f by (simp add: entrypoint_files(3)) (simp add: file_exists_def)
  show ?thesis using PROFILE_range[of g] srv off ok by (simp add: http_admin_def)
qed

lemma example_profile:
  "PROFILE (example_rng b 3 r1) = 1" "PROFILE (example_rng b 1 r1) = 2"
  "PROFILE (example_rng b 2 r1) = 3" "PROFILE (example_rng b 6 r1) = 1"
  by (simp_all add: PROFILE_def example_rng_def)

text \<open>
  Claim C4 as stated fails in profile 1: with \<open>$RANDOM = 3\<close> the weak-SSH profile is
  selected, and the request presenting the correct admin code gets no response, the flag
  staying present.
\<close>
theorem profile_1_no_endpoint:
  "PROFILE (example_rng 0 3 8) = 1
   \<and> file_exists (entrypoint (example_rng 0 3 8) (fresh_image True)) flag_path
   \<and> http_admin \<lparr>POST_code = Some (PString (ADMIN_CODE (example_rng 0 3 8))), GET_code = None\<rparr>
       (entrypoint (example_rng 0 3 8) (fresh_image True)) = None"
proof -
  have "services (entrypoint (example_rng 0 3 8) (fresh_image True)) = {Ssh}"
    using entrypoint_services(1)[OF example_profile(1)[of 0 8], of "fresh_image True"]
    by (simp add: fresh_image_def)
  then show ?thesis
    by (simp add: http_admin_def example_profile file_exists_def entrypoint_files)
qed

theorem endpoint_served_by_profile_witness:
  "PROFILE (example_rng 0 1 8) = 2
   \<and> request_code \<lparr>POST_code = Some (PString ''0000000000000000''), GET_code = None\<rparr>
       = PString (ADMIN_CODE (example_rng 0 1 8))
   \<and> unlink_permitted (fresh_image True)
   \<and> http_admin \<lparr>POST_code = Some (PString ''0000000000000000''), GET_code = None\<rparr>
        (entrypoint (example_rng 0 1 8) (fresh_image True))
      = Some (admin_php \<lparr>POST_code = Some (PString ''0000000000000000''), GET_code = None\<rparr>
        (entrypoint (example_rng 0 1 8) (fresh_image True)))
   \<and> fst (admin_php \<lparr>POST_code = Some (PString ''0000000000000000''), GET_code = None\<rparr>
        (entrypoint (example_rng 0 1 8) (fresh_image True))) = msg_success
   \<and> \<not> file_exists (snd (admin_php \<lparr>POST_code = Some (PString ''0000000000000000''), GET_code = None\<rparr>
        (entrypoint (example_rng 0 1 8) (fresh_image True)))) flag_path
   \<and> PROFILE (example_rng 0 3 8) = 1 \<and> Apache2 \<notin> services (fresh_image True)
   \<and> http_admin \<lparr>POST_code = Some (PString ''0000000000000000''), GET_code = None\<rparr>
        (entrypoint (example_rng 0 3 8) (fresh_image True)) = None"
  using endpoint_served_by_profile[of "example_rng 0 1 8"
          "\<lparr>POST_code = Some (PString ''0000000000000000''), GET_code = None\<rparr>" "fresh_image True"]
    endpoint_served_by_profile[of "example_rng 0 3 8"
          "\<lparr>POST_code = Some (PString ''0000000000000000''), GET_code = None\<rparr>" "fresh_image True"]
  by (simp add: example_profile example_code request_code_def fresh_image_def)

subsection \<open>The random draws\<close>













lemma hex_digit_inj: "a < 16 \<Longrightarrow> b < 16 \<Longrightarrow> hex_digit a = hex_digit b \<Longrightarrow> a = b"
proof -
  assume a: "a < 16" and b: "b < 16" and e: "hex_digit a = hex_digit b"
  have d: "distinct ''0123456789abcdef''" by simp
  have "''0123456789abcdef'' ! a = ''0123456789abcdef'' ! b"
    using e a b by (simp add: hex_digit_def)
  then show "a = b" using nth_eq_iff_index_eq[OF d, of a b] a b by simp
qed

lemma hex_byte_inj: "hex_byte a = hex_byte b \<Longrightarrow> a = b"
proof -
  assume e: "hex_byte a = hex_byte b"
  have la: "unat a < 256" using unsigned_less[of a, where 'a = nat] by simp
  have lb: "unat b < 256" using unsigned_less[of b, where 'a = nat] by simp
  have hi: "unat a div 16 = unat b div 16"
    using e la lb by (intro hex_digit_inj) (simp_all add: hex_byte_def)
  have lo: "unat a mod 16 = unat b mod 16"
    using e by (intro hex_digit_inj) (simp_all add: hex_byte_def)
  have "unat a = unat b" using hi lo by (metis div_mult_mod_eq)
  then show "a = b" by (simp add: unsigned_word_eqI)
qed

lemma hex_byte_length: "length (hex_byte b) = 2"
  by (simp add: hex_byte_def)

lemma openssl_rand_hex_inj:
  "(openssl_rand_hex n f = openssl_rand_hex n f') = (\<forall>i<n. f i = f' i)"
proof (induction n)
  case 0
  then show ?case by (simp add: openssl_rand_hex_def)
next
  case (Suc n)
  have step: "openssl_rand_hex (Suc n) h = openssl_rand_hex n h @ hex_byte (h n)" for h
    by (simp add: openssl_rand_hex_def)
  have "(openssl_rand_hex (Suc n) f = openssl_rand_hex (Suc n) f')
        = (openssl_rand_hex n f = openssl_rand_hex n f' \<and> hex_byte (f n) = hex_byte (f' n))"
    unfolding step by (simp add: openssl_rand_hex_length)
  also have "\<dots> = ((\<forall>i<n. f i = f' i) \<and> f n = f' n)"
    using Suc.IH hex_byte_inj by auto
  also have "\<dots> = (\<forall>i<Suc n. f i = f' i)"
    by (auto simp: less_Suc_eq)
  finally show ?case .
qed

lemma initialize_root_password: "root_password (initialize g img) = root_password img"
  by (simp add: initialize_def Let_def prim_defs split: option.splits)

lemma entrypoint_root_password:
  "PROFILE g = 1 \<Longrightarrow> root_password (entrypoint g img) = Some (SELECTED_PASS g)"
  by (simp add: entrypoint_def profile_setup_def profile_1_def Let_def prim_defs)

text \<open>
  Claim C9, as amended. The admin code is the hexadecimal print of the run's 8 random
  bytes, so two runs have the same admin code exactly when they drew the same 8 bytes.
  In the weak-credential profile root's password is the entry of the 8-word dictionary at
  the second value of \<open>$RANDOM\<close> modulo 8.
\<close>
theorem secrets_by_random_draws:
  "(ADMIN_CODE g = ADMIN_CODE g') = (\<forall>i<8. urandom g i = urandom g' i)
   \<and> length PASSWORDS = 8
   \<and> (PROFILE g = 1 \<longrightarrow>
        root_password (entrypoint g img) = Some (PASSWORDS ! (unat (RANDOM g 1) mod 8)))"
  by (simp add: ADMIN_CODE_def openssl_rand_hex_inj entrypoint_root_password SELECTED_PASS_def)
     (simp add: PASSWORDS_def)

lemma example_codes:
  "ADMIN_CODE (example_rng 0 r0 r1) = ''0000000000000000''"
  "ADMIN_CODE (example_rng 1 r0 r1) = ''0101010101010101''"
  by (simp_all add: ADMIN_CODE_def example_rng_def openssl_rand_hex_def hex_byte_def hex_digit_def upt_rec)

lemma example_pass:
  "SELECTED_PASS (example_rng b r0 8) = ''password''" "SELECTED_PASS (example_rng b r0 16) = ''password''"
  by (simp_all add: SELECTED_PASS_def example_rng_def PASSWORDS_def)

text \<open>
  Claim C9 as stated fails: two runs that differ in every random draw (bytes 0 against
  bytes 1, \<open>$RANDOM\<close> 3 then 8 against 6 then 16), and so in their admin codes, both select
  profile 1 and both set root's password to \<open>password\<close>.
\<close>
theorem weak_password_reused:
  "ADMIN_CODE (example_rng 0 3 8) \<noteq> ADMIN_CODE (example_rng 1 6 16)
   \<and> RANDOM (example_rng 0 3 8) 1 \<noteq> RANDOM (example_rng 1 6 16) 1
   \<and> PROFILE (example_rng 0 3 8) = 1 \<and> PROFILE (example_rng 1 6 16) = 1
   \<and> root_password (entrypoint (example_rng 0 3 8) (fresh_image True)) = Some ''password''
   \<and> root_password (entrypoint (example_rng 1 6 16) (fresh_image True)) = Some ''password''"
  by (simp add: example_codes example_profile entrypoint_root_password example_pass)
     (simp add: example_rng_def)

theorem secrets_by_random_draws_witness:
  "PROFILE (example_rng 0 3 8) = 1
   \<and> root_password (entrypoint (example_rng 0 3 8) (fresh_image True)) = Some ''password''
   \<and> urandom (example_rng 0 3 8) 0 \<noteq> urandom (example_rng 1 6 16) 0
   \<and> ADMIN_CODE (example_rng 0 3 8) \<noteq> ADMIN_CODE (example_rng 1 6 16)"
proof -
  have d: "urandom (example_rng 0 3 8) 0 \<noteq> urandom (example_rng 1 6 16) 0"
    by (simp add: example_rng_def)
  then have "\<not> (\<forall>i<8. urandom (example_rng 0 3 8) i = urandom (example_rng 1 6 16) i)"
    by (auto intro: exI[of _ 0])
  then have "ADMIN_CODE (example_rng 0 3 8) \<noteq> ADMIN_CODE (example_rng 1 6 16)"
    using secrets_by_random_draws[of "example_rng 0 3 8" "example_rng 1 6 16" "fresh_image True"] by blast
  moreover have "root_password (entrypoint (example_rng 0 3 8) (fresh_image True)) = Some ''password''"
    using secrets_by_random_draws[of "example_rng 0 3 8" "example_rng 1 6 16" "fresh_image True"] example_profile(1)[of 0 8]
    by (simp add: example_rng_def PASSWORDS_def)
  ultimately show ?thesis using d example_profile(1)[of 0 8] by simp
qed

section \<open>Properties of the action log table\<close>





section \<open>Properties of the orchestration core\<close>

text \<open>
  Claim C5. \<open>StartBattle\<close> called with \<open>n\<close> participant agent IDs fails with
  \<open>ValidationError\<close> if and only if \<open>n\<close> is outside \<open>[2, 10]\<close>, and returns a match
  otherwise; in particular it fails for 1 and for 11 IDs and succeeds for 2 and for 10.
\<close>
theorem StartBattle_validates_count:
  "(StartBattle ids c = Inl ValidationError) = (length ids < 2 \<or> 10 < length ids)
   \<and> (\<exists>matchId c'. StartBattle ids c = Inr (matchId, c')) = (2 \<le> length ids \<and> length ids \<le> 10)
   \<and> (length ids = 1 \<or> length ids = 11 \<longrightarrow> StartBattle ids c = Inl ValidationError)
   \<and> (length ids = 2 \<or> length ids = 10 \<longrightarrow> (\<exists>matchId c'. StartBattle ids c = Inr (matchId, c')))"
  by (auto simp: StartBattle_def StartMatch_def Let_def)

theorem StartBattle_validates_count_witness:
  "StartBattle [7] \<lparr>matches = Map.empty, next_match = 0\<rparr> = Inl ValidationError
   \<and> StartBattle [1, 2, 3, 4, 5, 6, 7, 8, 9, 10, 11] \<lparr>matches = Map.empty, next_match = 0\<rparr>
       = Inl ValidationError
   \<and> (\<exists>matchId c'. StartBattle [1, 2] \<lparr>matches = Map.empty, next_match = 0\<rparr> = Inr (matchId, c'))
   \<and> (\<exists>matchId c'. StartBattle [1, 2, 3, 4, 5, 6, 7, 8, 9, 10] \<lparr>matches = Map.empty, next_match = 0\<rparr>
         = Inr (matchId, c'))"
  using StartBattle_validates_count[of "[7]" "\<lparr>matches = Map.empty, next_match = 0\<rparr>"]
    StartBattle_validates_count[of "[1, 2, 3, 4, 5, 6, 7, 8, 9, 10, 11]" "\<lparr>matches = Map.empty, next_match = 0\<rparr>"]
    StartBattle_validates_count[of "[1, 2]" "\<lparr>matches = Map.empty, next_match = 0\<rparr>"]
    StartBattle_validates_count[of "[1, 2, 3, 4, 5, 6, 7, 8, 9, 10]" "\<lparr>matches = Map.empty, next_match = 0\<rparr>"]
  by simp

lemma coordinator_step_edge:
  "status (coordinator_step e m) = status m \<or> edge (status m, status (coordinator_step e m))"
  by (cases e) auto

lemma status_trace_Cons: "\<exists>tr. status_trace es m = status m # tr"
  by (cases es) auto

lemma status_changes_Cons:
  "status_changes (a # b # tr) = (if a \<noteq> b then [(a, b)] else []) @ status_changes (b # tr)"
  by (simp add: status_changes_def)

lemma status_trace_edges: "list_all edge (status_changes (status_trace es m))"
proof (induction es arbitrary: m)
  case Nil
  then show ?case by (simp add: status_changes_def)
next
  case (Cons e es)
  obtain tr where tr: "status_trace es (coordinator_step e m) = status (coordinator_step e m) # tr"
    using status_trace_Cons by blast
  have "list_all edge (status_changes (status (coordinator_step e m) # tr))"
    using Cons.IH[of "coordinator_step e m"] tr by simp
  then show ?case
    using coordinator_step_edge[of e m] by (auto simp: tr status_changes_Cons)
qed

text \<open>
  Claim C7. A match's status is one of \<open>lobby\<close>, \<open>ongoing\<close>, \<open>completed\<close>, \<open>aborted\<close>,
  and under any sequence of events every change of status is one of the edges
  \<open>lobby \<rightarrow> ongoing\<close>, \<open>ongoing \<rightarrow> completed\<close>, \<open>ongoing \<rightarrow> aborted\<close>; both terminal
  statuses are reached from \<open>lobby\<close> through \<open>ongoing\<close>.
\<close>
theorem status_follows_edges:
  "status m \<in> {lobby, ongoing, completed, aborted}
   \<and> list_all edge (status_changes (status_trace es m))
   \<and> status_trace [Accept, Resolve oc] (m\<lparr>status := lobby\<rparr>) = [lobby, ongoing, completed]
   \<and> status_trace [Accept, Abort] (m\<lparr>status := lobby\<rparr>) = [lobby, ongoing, aborted]"
proof -
  have "status m \<in> {lobby, ongoing, completed, aborted}" by (cases "status m") simp_all
  then show ?thesis using status_trace_edges[of es m] by simp
qed

text \<open>
  Claim C8. \<open>Apply\<close> called twice for the same match and outcome leaves the store, and
  so the wins, losses, matches played and rank points of every user, as one call does;
  the first call sets the match's "ranking applied" marker.
\<close>
theorem Apply_idempotent:
  "Apply winPoints lossPoints matchId oc (Apply winPoints lossPoints matchId oc rs)
     = Apply winPoints lossPoints matchId oc rs
   \<and> stats (Apply winPoints lossPoints matchId oc (Apply winPoints lossPoints matchId oc rs)) u
     = stats (Apply winPoints lossPoints matchId oc rs) u
   \<and> matchId \<in> ranking_applied (Apply winPoints lossPoints matchId oc rs)"
  by (simp add: Apply_def)

text \<open>One call does count: the winner's owner gains a win, the other owner a loss.\<close>

lemma Apply_once_counts:
  "stats (Apply 25 (-10) 0 (victory 1)
       \<lparr>stats = (\<lambda>u. \<lparr>wins = 0, losses = 0, matchesPlayed = 0, rankPoints = 0\<rparr>),
        ranking_applied = {}, roster = (\<lambda>m. [(1, 7), (2, 8)])\<rparr>) 7
     = \<lparr>wins = 1, losses = 0, matchesPlayed = 1, rankPoints = 25\<rparr>"
  "stats (Apply 25 (-10) 0 (victory 1)
       \<lparr>stats = (\<lambda>u. \<lparr>wins = 0, losses = 0, matchesPlayed = 0, rankPoints = 0\<rparr>),
        ranking_applied = {}, roster = (\<lambda>m. [(1, 7), (2, 8)])\<rparr>) 8
     = \<lparr>wins = 0, losses = 1, matchesPlayed = 1, rankPoints = -10\<rparr>"
  by (simp_all add: Apply_def adjust_def)

end
